theory Spec2Isabelle
  imports
    Complex_Main
    "HOL-Library.Monad_Syntax"
    "HOL-Library.Multiset"
    "HOL-Library.Product_Lexorder"
begin

section \<open>Terrain metrics of get\_topography.py\<close>

text \<open>
  The embedding follows \<^verbatim>\<open>src/get_topography.py\<close>. Floating-point numbers are
  idealised as real numbers; the one non-number the code relies on, NaN, is kept: a cell
  of a numeric column is \<open>Some v\<close> or \<open>None\<close> (NaN, also a blank spreadsheet cell), and
  every numpy operation on cells propagates \<open>None\<close>. Rounding, overflow to infinity and
  signed zeros are outside the model, and so are cells that hold text, which the spec
  leaves undefined.
\<close>

subsection \<open>Cells and numpy primitives\<close>

type_synonym cell = "real option"

type_synonym series = "cell list"

text \<open>\<^verbatim>\<open>np.sqrt\<close>: NaN on a negative argument.\<close>

definition np_sqrt :: "real \<Rightarrow> cell" where
  "np_sqrt x = (if x < 0 then None else Some (sqrt x))"

text \<open>\<^verbatim>\<open>np.arctan2(y, x)\<close>: the angle of the point \<open>(x, y)\<close> in \<open>(-\<pi>, \<pi>]\<close>, and 0 at the origin.\<close>

definition np_arctan2 :: "real \<Rightarrow> real \<Rightarrow> real" where
  "np_arctan2 y x =
     (if 0 < x then arctan (y / x)
      else if x < 0 then (if 0 \<le> y then arctan (y / x) + pi else arctan (y / x) - pi)
      else if 0 < y then pi / 2
      else if y < 0 then - (pi / 2)
      else 0)"

definition np_radians :: "cell \<Rightarrow> cell" where
  "np_radians c = map_option (\<lambda>x. x * pi / 180) c"

definition np_degrees :: "real \<Rightarrow> real" where
  "np_degrees x = x * 180 / pi"

definition cell_sub :: "cell \<Rightarrow> cell \<Rightarrow> cell" where
  "cell_sub a b = do { x \<leftarrow> a; y \<leftarrow> b; Some (x - y) }"

text \<open>
  Division of cells. In the program the divisor is a surviving horizontal distance, at
  least one centimetre (lemma \<open>df_cleaned_distance\<close>), so division by zero is never reached.
\<close>

definition cell_div :: "cell \<Rightarrow> cell \<Rightarrow> cell" where
  "cell_div a b = do { x \<leftarrow> a; y \<leftarrow> b; Some (x / y) }"

definition cell_abs :: "cell \<Rightarrow> cell" where
  "cell_abs c = map_option abs c"

text \<open>The comparison \<^verbatim>\<open>series >= t\<close>: False on NaN.\<close>

definition cell_ge :: "cell \<Rightarrow> real \<Rightarrow> bool" where
  "cell_ge c t = (case c of None \<Rightarrow> False | Some v \<Rightarrow> t \<le> v)"

subsection \<open>haversine\_distance\<close>

definition earth_radius_m_default :: real where
  "earth_radius_m_default = 6371000"

definition haversine_distance :: "cell \<Rightarrow> cell \<Rightarrow> cell \<Rightarrow> cell \<Rightarrow> real \<Rightarrow> cell" where
  "haversine_distance lat1_rad lon1_rad lat2_rad lon2_rad earth_radius_m =
     do {
       lat1 \<leftarrow> lat1_rad;
       lon1 \<leftarrow> lon1_rad;
       lat2 \<leftarrow> lat2_rad;
       lon2 \<leftarrow> lon2_rad;
       let delta_lat = lat2 - lat1;
       let delta_lon = lon2 - lon1;
       let a = (sin (delta_lat / 2))\<^sup>2 + cos lat1 * cos lat2 * (sin (delta_lon / 2))\<^sup>2;
       sqrt_a \<leftarrow> np_sqrt a;
       sqrt_1a \<leftarrow> np_sqrt (1 - a);
       let c = 2 * np_arctan2 sqrt_a sqrt_1a;
       let distance = earth_radius_m * c;
       Some distance
     }"

text \<open>The intermediate \<open>a\<close> of line 14, named for the lemmas about it.\<close>

definition hav_a :: "real \<Rightarrow> real \<Rightarrow> real \<Rightarrow> real \<Rightarrow> real" where
  "hav_a lat1 lon1 lat2 lon2 =
     (sin ((lat2 - lat1) / 2))\<^sup>2 + cos lat1 * cos lat2 * (sin ((lon2 - lon1) / 2))\<^sup>2"

subsection \<open>Frames\<close>

text \<open>
  A frame as \<^verbatim>\<open>pd.read_excel\<close> returns it: column labels and rows; a row gives the cell
  under each label. \<^verbatim>\<open>df[c]\<close> is \<open>getcol df c\<close>, \<^verbatim>\<open>df.empty\<close> holds when an axis has
  length 0.
\<close>

type_synonym row = "string \<Rightarrow> cell"

record dataframe =
  columns :: "string list"
  rows :: "row list"

definition df_empty :: "dataframe \<Rightarrow> bool" where
  "df_empty df \<longleftrightarrow> columns df = [] \<or> rows df = []"

definition getcol :: "dataframe \<Rightarrow> string \<Rightarrow> series" where
  "getcol df c = map (\<lambda>r. r c) (rows df)"

text \<open>
  \<^verbatim>\<open>df[c] = s\<close> for a series \<open>s\<close> as long as the frame: the column is replaced, or added
  after the others when the label is new.
\<close>

definition set_col :: "dataframe \<Rightarrow> string \<Rightarrow> series \<Rightarrow> dataframe" where
  "set_col df c s =
     \<lparr> columns = (if c \<in> set (columns df) then columns df else columns df @ [c]),
       rows = map (\<lambda>(r, v). r(c := v)) (zip (rows df) s) \<rparr>"

text \<open>
  \<^verbatim>\<open>df.sort_values(by=id_col).reset_index(drop=True)\<close>. pandas computes an indexer, a
  permutation of the row positions, from the key column and takes the rows in that
  order; NaN keys go last. The algorithm behind the indexer is the library's (the call
  leaves \<^verbatim>\<open>kind\<close> at its default), so it is a parameter \<open>argsort\<close> here, and
  \<open>argsort_ok\<close> is what any sorting algorithm guarantees of it.
\<close>

definition na_last :: "cell \<Rightarrow> bool \<times> real" where
  "na_last c = (case c of None \<Rightarrow> (True, 0) | Some v \<Rightarrow> (False, v))"

definition sort_values :: "(series \<Rightarrow> nat list) \<Rightarrow> dataframe \<Rightarrow> string \<Rightarrow> dataframe" where
  "sort_values argsort df by = df\<lparr>rows := map (\<lambda>i. rows df ! i) (argsort (getcol df by))\<rparr>"

definition argsort_ok :: "(series \<Rightarrow> nat list) \<Rightarrow> bool" where
  "argsort_ok argsort \<longleftrightarrow>
     (\<forall>ks. mset (argsort ks) = mset [0..<length ks]
          \<and> sorted (map (\<lambda>i. na_last (ks ! i)) (argsort ks)))"

text \<open>One algorithm that meets \<open>argsort_ok\<close>: insertion sort of the positions by key.\<close>

definition argsort_insertion :: "series \<Rightarrow> nat list" where
  "argsort_insertion ks = sort_key (\<lambda>i. na_last (ks ! i)) [0..<length ks]"

text \<open>\<^verbatim>\<open>Series.shift(1)\<close> and \<^verbatim>\<open>Series.diff()\<close>.\<close>

definition shift1 :: "series \<Rightarrow> series" where
  "shift1 s = (case s of [] \<Rightarrow> [] | _ # _ \<Rightarrow> None # butlast s)"

definition diff1 :: "series \<Rightarrow> series" where
  "diff1 s = map (\<lambda>(x, p). cell_sub x p) (zip s (shift1 s))"

subsection \<open>Aggregates\<close>

text \<open>\<^verbatim>\<open>Series.max()\<close>, \<^verbatim>\<open>.median()\<close>, \<^verbatim>\<open>.mean()\<close> skip NaN and give NaN on nothing.\<close>

fun dropna :: "series \<Rightarrow> real list" where
  "dropna [] = []"
| "dropna (None # s) = dropna s"
| "dropna (Some v # s) = v # dropna s"

definition series_max :: "series \<Rightarrow> cell" where
  "series_max s = (case dropna s of [] \<Rightarrow> None | v # vs \<Rightarrow> Some (fold max vs v))"

definition series_median :: "series \<Rightarrow> cell" where
  "series_median s =
     (let vs = sort (dropna s); n = length vs
      in if n = 0 then None
         else if odd n then Some (vs ! (n div 2))
         else Some ((vs ! (n div 2 - 1) + vs ! (n div 2)) / 2))"

definition series_mean :: "series \<Rightarrow> cell" where
  "series_mean s =
     (let vs = dropna s
      in if vs = [] then None else Some (sum_list vs / real (length vs)))"

text \<open>\<^verbatim>\<open>x if not pd.isna(x) else 0.0\<close>\<close>

definition nan_to_zero :: "cell \<Rightarrow> real" where
  "nan_to_zero c = (case c of None \<Rightarrow> 0 | Some v \<Rightarrow> v)"

subsection \<open>analyze\_and\_export\_metrics\<close>

record results =
  File_Path :: string
  Max_Slope_Ratio_m_m :: real
  Median_Absolute_Slope_m_m :: real
  Mean_Absolute_Slope_m_m :: real
  Max_Grade_Percent :: real
  Median_Grade_Percent :: real
  Mean_Grade_Percent :: real
  Max_Grade_Angle_Degrees :: real
  Max_Vertical_Step_m :: real
  Median_Vertical_Step_m :: real
  Mean_Vertical_Step_m :: real

definition MIN_HORIZONTAL_STEP_M :: real where
  "MIN_HORIZONTAL_STEP_M = 1 / 100"

text \<open>
  \<open>haversine_distance\<close> called with four columns, as on line 70: numpy applies it element
  by element, with the default radius.
\<close>

definition haversine_columns :: "series \<Rightarrow> series \<Rightarrow> series \<Rightarrow> series \<Rightarrow> series" where
  "haversine_columns lat1_rad lon1_rad lat2_rad lon2_rad =
     map (\<lambda>(lat1, lon1, lat2, lon2).
            haversine_distance lat1 lon1 lat2 lon2 earth_radius_m_default)
       (zip lat1_rad (zip lon1_rad (zip lat2_rad lon2_rad)))"

text \<open>
  Step 1, lines 59 to 74, on the sorted frame. Each assignment writes a column of the
  frame and each later read goes through the frame, as in the code; a column of the
  table that carries one of the labels written here is overwritten.
\<close>

definition step1 :: "dataframe \<Rightarrow> string \<Rightarrow> string \<Rightarrow> string \<Rightarrow> dataframe" where
  "step1 df lon_col lat_col z_col =
     (let df = set_col df ''prev_lat'' (shift1 (getcol df lat_col));
          df = set_col df ''prev_lon'' (shift1 (getcol df lon_col));
          df = set_col df ''lat_rad'' (map np_radians (getcol df lat_col));
          df = set_col df ''lon_rad'' (map np_radians (getcol df lon_col));
          df = set_col df ''prev_lat_rad'' (map np_radians (getcol df ''prev_lat''));
          df = set_col df ''prev_lon_rad'' (map np_radians (getcol df ''prev_lon''));
          df = set_col df ''d_horizontal_m''
                 (haversine_columns (getcol df ''prev_lat_rad'') (getcol df ''prev_lon_rad'')
                    (getcol df ''lat_rad'') (getcol df ''lon_rad''));
          df = set_col df ''dZ_m'' (diff1 (getcol df z_col))
      in df)"

text \<open>Line 78: \<^verbatim>\<open>df[df['d_horizontal_m'] >= MIN_HORIZONTAL_STEP_M]\<close>.\<close>

definition df_cleaned :: "dataframe \<Rightarrow> dataframe" where
  "df_cleaned df =
     df\<lparr>rows := filter (\<lambda>r. cell_ge (r ''d_horizontal_m'') MIN_HORIZONTAL_STEP_M) (rows df)\<rparr>"

text \<open>Steps 2 to 4, lines 81 to 125, on the cleaned frame.\<close>

definition compile_results :: "string \<Rightarrow> dataframe \<Rightarrow> results" where
  "compile_results file_path cleaned =
     (let cleaned = set_col cleaned ''Absolute_Slope''
                      (map (\<lambda>(dz, d). cell_abs (cell_div dz d))
                         (zip (getcol cleaned ''dZ_m'') (getcol cleaned ''d_horizontal_m'')));
          max_slope_value = series_max (getcol cleaned ''Absolute_Slope'');
          median_abs_slope = series_median (getcol cleaned ''Absolute_Slope'');
          mean_abs_slope = series_mean (getcol cleaned ''Absolute_Slope'');
          cleaned = set_col cleaned ''dZ_m_abs'' (map cell_abs (getcol cleaned ''dZ_m''));
          max_vertical_step = series_max (getcol cleaned ''dZ_m_abs'');
          median_vertical_step = series_median (getcol cleaned ''dZ_m_abs'');
          mean_vertical_step = series_mean (getcol cleaned ''dZ_m_abs'');
          max_slope_value = nan_to_zero max_slope_value;
          median_abs_slope = nan_to_zero median_abs_slope;
          mean_abs_slope = nan_to_zero mean_abs_slope;
          max_vertical_step = nan_to_zero max_vertical_step;
          median_vertical_step = nan_to_zero median_vertical_step;
          mean_vertical_step = nan_to_zero mean_vertical_step;
          max_grade_percent = max_slope_value * 100;
          max_grade_angle = np_degrees (arctan max_slope_value);
          median_grade_percent = median_abs_slope * 100;
          mean_grade_percent = mean_abs_slope * 100
      in \<lparr> File_Path = file_path,
           Max_Slope_Ratio_m_m = max_slope_value,
           Median_Absolute_Slope_m_m = median_abs_slope,
           Mean_Absolute_Slope_m_m = mean_abs_slope,
           Max_Grade_Percent = max_grade_percent,
           Median_Grade_Percent = median_grade_percent,
           Mean_Grade_Percent = mean_grade_percent,
           Max_Grade_Angle_Degrees = max_grade_angle,
           Max_Vertical_Step_m = max_vertical_step,
           Median_Vertical_Step_m = median_vertical_step,
           Mean_Vertical_Step_m = mean_vertical_step \<rparr>)"

text \<open>
  The world of the function. \<^verbatim>\<open>pd.read_excel\<close> raises or returns a frame; opening and
  writing the report file raises or succeeds. Of an exception only its place in the
  hierarchy matters to the \<^verbatim>\<open>except\<close> clauses: \<open>FileNotFoundError\<close>, another
  \<open>Exception\<close>, or a \<open>BaseException\<close> that is not an \<open>Exception\<close> (KeyboardInterrupt,
  SystemExit), which no clause of the function catches.
\<close>

datatype py_exception = FileNotFoundError | Exception_other | BaseException_other

record env =
  read_excel :: "string \<Rightarrow> py_exception + dataframe"
  argsort :: "series \<Rightarrow> nat list"
  write_report :: "string \<Rightarrow> py_exception option"

text \<open>What the function prints, one constructor per \<^verbatim>\<open>print\<close> call, with the values it formats.\<close>

datatype message =
    Initiating string
  | Error_not_located string
  | Error_loading
  | Error_empty_or_missing "string list"
  | Final_metrics int real real real real real real
  | Success_exported string
  | Warning_not_written string

record outcome =
  returned :: "py_exception + results option"
  printed :: "message list"
  exported :: "(string \<times> results) option"

text \<open>\<^verbatim>\<open>os.path.basename\<close> (POSIX): what follows the last slash.\<close>

definition basename :: "string \<Rightarrow> string" where
  "basename p = rev (takeWhile (\<lambda>c. c \<noteq> CHR ''/'') (rev p))"

text \<open>Step 5, lines 129 to 156; \<open>Inl e\<close> is the exception \<open>e\<close> leaving the function.\<close>

definition display_and_export ::
  "env \<Rightarrow> string option \<Rightarrow> message list \<Rightarrow> int \<Rightarrow> results \<Rightarrow> outcome" where
  "display_and_export w output_filename out n_filtered res =
     (let out = out @ [Final_metrics n_filtered
                         (Mean_Grade_Percent res) (Median_Grade_Percent res) (Max_Grade_Percent res)
                         (Mean_Vertical_Step_m res) (Median_Vertical_Step_m res)
                         (Max_Vertical_Step_m res)]
      in case output_filename of
           None \<Rightarrow> \<lparr> returned = Inr (Some res), printed = out, exported = None \<rparr>
         | Some f \<Rightarrow>
             if f = [] then \<lparr> returned = Inr (Some res), printed = out, exported = None \<rparr>
             else (case write_report w f of
                     None \<Rightarrow> \<lparr> returned = Inr (Some res),
                               printed = out @ [Success_exported f],
                               exported = Some (f, res) \<rparr>
                   | Some BaseException_other \<Rightarrow>
                       \<lparr> returned = Inl BaseException_other, printed = out, exported = None \<rparr>
                   | Some _ \<Rightarrow> \<lparr> returned = Inr (Some res),
                                 printed = out @ [Warning_not_written f],
                                 exported = None \<rparr>))"

definition analyze_and_export_metrics ::
  "env \<Rightarrow> string \<Rightarrow> string \<Rightarrow> string \<Rightarrow> string \<Rightarrow> string \<Rightarrow> string option \<Rightarrow> outcome" where
  "analyze_and_export_metrics w file_path lon_col lat_col z_col id_col output_filename =
     (let out = [Initiating (basename file_path)]
      in case read_excel w file_path of
           Inl FileNotFoundError \<Rightarrow>
             \<lparr> returned = Inr None, printed = out @ [Error_not_located file_path], exported = None \<rparr>
         | Inl Exception_other \<Rightarrow>
             \<lparr> returned = Inr None, printed = out @ [Error_loading], exported = None \<rparr>
         | Inl BaseException_other \<Rightarrow>
             \<lparr> returned = Inl BaseException_other, printed = out, exported = None \<rparr>
         | Inr df \<Rightarrow>
             (let required_cols = [lon_col, lat_col, z_col, id_col]
              in if df_empty df \<or> \<not> list_all (\<lambda>col. col \<in> set (columns df)) required_cols
                 then \<lparr> returned = Inr None,
                        printed = out @ [Error_empty_or_missing required_cols],
                        exported = None \<rparr>
                 else
                   (let df = sort_values (argsort w) df id_col;
                        df = step1 df lon_col lat_col z_col;
                        cleaned = df_cleaned df;
                        res = compile_results file_path cleaned
                    in display_and_export w output_filename out
                         (int (length (rows df)) - int (length (rows cleaned))) res)))"

text \<open>
  The spec's StepRecord, as the spec words it: for each adjacent pair \<open>(i-1, i)\<close> of the
  sorted sequence, the great-circle distance between the two points and
  \<open>elevation[i] - elevation[i-1]\<close>. It is compared with the code's shifted columns below.
\<close>

fun step_records :: "string \<Rightarrow> string \<Rightarrow> string \<Rightarrow> row list \<Rightarrow> (cell \<times> cell) list" where
  "step_records lon_col lat_col z_col (p # q # rs) =
     (haversine_distance (np_radians (p lat_col)) (np_radians (p lon_col))
        (np_radians (q lat_col)) (np_radians (q lon_col)) earth_radius_m_default,
      cell_sub (q z_col) (p z_col))
     # step_records lon_col lat_col z_col (q # rs)"
| "step_records lon_col lat_col z_col [p] = []"
| "step_records lon_col lat_col z_col [] = []"

text \<open>
  For the comparison: a frame seen through its two derived columns, one pair
  \<open>(d_horizontal_m, dZ_m)\<close> per row; the columns \<^verbatim>\<open>Absolute_Slope\<close> and \<^verbatim>\<open>dZ_m_abs\<close> that
  lines 81 and 91 make of such pairs; and the labels Step 1 writes.
\<close>

definition step_pairs :: "dataframe \<Rightarrow> (cell \<times> cell) list" where
  "step_pairs df = map (\<lambda>r. (r ''d_horizontal_m'', r ''dZ_m'')) (rows df)"

definition Absolute_Slope :: "(cell \<times> cell) list \<Rightarrow> series" where
  "Absolute_Slope pairs = map (\<lambda>(d, dz). cell_abs (cell_div dz d)) pairs"

definition dZ_m_abs :: "(cell \<times> cell) list \<Rightarrow> series" where
  "dZ_m_abs pairs = map (\<lambda>(d, dz). cell_abs dz) pairs"

definition step1_columns :: "string list" where
  "step1_columns = [''prev_lat'', ''prev_lon'', ''lat_rad'', ''lon_rad'',
                    ''prev_lat_rad'', ''prev_lon_rad'', ''d_horizontal_m'', ''dZ_m'']"

text \<open>
  The write of the report is cut short by a \<open>BaseException\<close> that is not an
  \<open>Exception\<close>: the one way past the \<^verbatim>\<open>except Exception\<close> of line 153.
\<close>

definition write_interrupted :: "env \<Rightarrow> string option \<Rightarrow> bool" where
  "write_interrupted w output_filename \<longleftrightarrow>
     (case output_filename of
        None \<Rightarrow> False
      | Some f \<Rightarrow> f \<noteq> [] \<and> write_report w f = Some BaseException_other)"

subsection \<open>Sample inputs\<close>

text \<open>
  Tables under the default column names \<^verbatim>\<open>x\<close>, \<^verbatim>\<open>y\<close>, \<^verbatim>\<open>ZCOORD\<close>, \<^verbatim>\<open>ID\<close>, and worlds
  in which \<^verbatim>\<open>pd.read_excel\<close> returns a given frame or raises.
\<close>

definition point_row :: "real \<Rightarrow> real \<Rightarrow> real \<Rightarrow> real \<Rightarrow> row" where
  "point_row i lon lat z =
     (\<lambda>c. if c = ''ID'' then Some i
          else if c = ''x'' then Some lon
          else if c = ''y'' then Some lat
          else if c = ''ZCOORD'' then Some z
          else None)"

definition survey :: "row list \<Rightarrow> dataframe" where
  "survey rs = \<lparr> columns = [''x'', ''y'', ''ZCOORD'', ''ID''], rows = rs \<rparr>"

definition world :: "dataframe \<Rightarrow> py_exception option \<Rightarrow> env" where
  "world df wr = \<lparr> read_excel = (\<lambda>_. Inr df), argsort = argsort_insertion, write_report = (\<lambda>_. wr) \<rparr>"

definition world_raising :: "py_exception \<Rightarrow> env" where
  "world_raising e =
     \<lparr> read_excel = (\<lambda>_. Inl e), argsort = argsort_insertion, write_report = (\<lambda>_. None) \<rparr>"

text \<open>
  Three points given out of order. Sorted by id, the first step is degenerate (the same
  place, 7 m up) and the second runs half-way round the equator, 3 m up.
\<close>

definition three_points :: "row list" where
  "three_points = [point_row 3 180 0 10, point_row 1 0 0 0, point_row 2 0 0 7]"

definition three_points_in_order :: "row list" where
  "three_points_in_order = [point_row 1 0 0 0, point_row 2 0 0 7, point_row 3 180 0 10]"

text \<open>The record of the three points: one surviving step, 3 m up over half the equator.\<close>

definition three_points_results :: "string \<Rightarrow> results" where
  "three_points_results file_path =
     \<lparr> File_Path = file_path,
       Max_Slope_Ratio_m_m = 3 / (pi * 6371000),
       Median_Absolute_Slope_m_m = 3 / (pi * 6371000),
       Mean_Absolute_Slope_m_m = 3 / (pi * 6371000),
       Max_Grade_Percent = 3 / (pi * 6371000) * 100,
       Median_Grade_Percent = 3 / (pi * 6371000) * 100,
       Mean_Grade_Percent = 3 / (pi * 6371000) * 100,
       Max_Grade_Angle_Degrees = np_degrees (arctan (3 / (pi * 6371000))),
       Max_Vertical_Step_m = 3,
       Median_Vertical_Step_m = 3,
       Mean_Vertical_Step_m = 3 \<rparr>"

text \<open>Two points at the same place, one point alone, and a table with no elevation column.\<close>

definition two_coincident_points :: "row list" where
  "two_coincident_points = [point_row 1 0 0 0, point_row 2 0 0 5]"

definition one_point :: "row list" where
  "one_point = [point_row 1 0 0 0]"

definition survey_without_elevation :: dataframe where
  "survey_without_elevation = \<lparr> columns = [''x'', ''y'', ''ID''], rows = three_points \<rparr>"

text \<open>
  Two rows with the same id, and a second algorithm that meets \<open>argsort_ok\<close>: insertion
  sort of the positions taken from the last to the first.
\<close>

definition two_points_same_id :: "row list" where
  "two_points_same_id = [point_row 1 0 0 0, point_row 1 180 0 7]"

definition argsort_ties_reversed :: "series \<Rightarrow> nat list" where
  "argsort_ties_reversed ks = sort_key (\<lambda>i. na_last (ks ! i)) (rev [0..<length ks])"

section \<open>Properties\<close>

subsection \<open>The haversine intermediate lies in the unit interval\<close>

lemma sin_half_sq: "(sin (x / 2))\<^sup>2 = (1 - cos x) / 2" for x :: real
  using cos_double_sin [of "x / 2"] by simp

lemma hav_a_convex:
  "hav_a lat1 lon1 lat2 lon2 =
     (1 - (sin ((lon2 - lon1) / 2))\<^sup>2) * ((1 - cos (lat2 - lat1)) / 2)
     + (sin ((lon2 - lon1) / 2))\<^sup>2 * ((1 + cos (lat2 + lat1)) / 2)"
proof -
  define t where "t = (sin ((lon2 - lon1) / 2))\<^sup>2"
  define p where "p = cos lat1 * cos lat2"
  define q where "q = sin lat1 * sin lat2"
  have d: "cos (lat2 - lat1) = p + q" by (simp add: cos_diff p_def q_def mult.commute)
  have s: "cos (lat2 + lat1) = p - q" by (simp add: cos_add p_def q_def mult.commute)
  have "hav_a lat1 lon1 lat2 lon2 = (1 - (p + q)) / 2 + p * t"
    unfolding hav_a_def sin_half_sq [of "lat2 - lat1"] d by (simp add: p_def t_def)
  also have "\<dots> = (1 - t) * ((1 - (p + q)) / 2) + t * ((1 + (p - q)) / 2)"
    by (simp add: field_simps)
  finally show ?thesis by (simp only: t_def [symmetric] d s)
qed

lemma convex_unit:
  fixes t u v :: real
  assumes "0 \<le> t" "t \<le> 1" "0 \<le> u" "u \<le> 1" "0 \<le> v" "v \<le> 1"
  shows "0 \<le> (1 - t) * u + t * v" and "(1 - t) * u + t * v \<le> 1"
proof -
  show "0 \<le> (1 - t) * u + t * v" using assms by simp
  have "(1 - t) * u \<le> (1 - t) * 1" using assms by (intro mult_left_mono) auto
  moreover have "t * v \<le> t * 1" using assms by (intro mult_left_mono) auto
  ultimately show "(1 - t) * u + t * v \<le> 1" by simp
qed

lemma half_unit:
  fixes c :: real
  assumes "- 1 \<le> c" "c \<le> 1"
  shows "0 \<le> (1 - c) / 2 \<and> (1 - c) / 2 \<le> 1 \<and> 0 \<le> (1 + c) / 2 \<and> (1 + c) / 2 \<le> 1"
  using assms by auto

lemma hav_a_bounds: "0 \<le> hav_a lat1 lon1 lat2 lon2" "hav_a lat1 lon1 lat2 lon2 \<le> 1"
proof -
  let ?t = "(sin ((lon2 - lon1) / 2))\<^sup>2"
  let ?u = "(1 - cos (lat2 - lat1)) / 2"
  let ?v = "(1 + cos (lat2 + lat1)) / 2"
  have t: "0 \<le> ?t" "?t \<le> 1" by (simp_all add: abs_square_le_1)
  have u1: "0 \<le> ?u" and u2: "?u \<le> 1"
    using half_unit [of "cos (lat2 - lat1)"] by simp_all
  have v1: "0 \<le> ?v" and v2: "?v \<le> 1"
    using half_unit [of "cos (lat2 + lat1)"] by simp_all
  show "0 \<le> hav_a lat1 lon1 lat2 lon2" "hav_a lat1 lon1 lat2 lon2 \<le> 1"
    unfolding hav_a_convex using convex_unit [OF t u1 u2 v1 v2] by simp_all
qed

lemma haversine_distance_Some:
  "haversine_distance (Some lat1) (Some lon1) (Some lat2) (Some lon2) R =
     Some (R * (2 * np_arctan2 (sqrt (hav_a lat1 lon1 lat2 lon2))
                               (sqrt (1 - hav_a lat1 lon1 lat2 lon2))))"
  using hav_a_bounds [of lat1 lon1 lat2 lon2]
  by (simp add: haversine_distance_def np_sqrt_def hav_a_def Let_def)


subsection \<open>Claims about haversine\_distance\<close>




text \<open>
  C9. \<open>haversine_distance\<close> is symmetric in its two points, for every radius, NaN
  arguments included.
\<close>

theorem haversine_distance_symmetric:
  "haversine_distance lat1 lon1 lat2 lon2 R = haversine_distance lat2 lon2 lat1 lon1 R"
proof (cases "lat1 = None \<or> lon1 = None \<or> lat2 = None \<or> lon2 = None")
  case True
  then show ?thesis by (auto simp: haversine_distance_def split: Option.bind_splits)
next
  case False
  then obtain a b c d where v: "lat1 = Some a" "lon1 = Some b" "lat2 = Some c" "lon2 = Some d"
    by auto
  have flip: "(sin ((x - y) / 2))\<^sup>2 = (sin ((y - x) / 2))\<^sup>2" for x y :: real
  proof -
    have "(x - y) / 2 = - ((y - x) / 2)" by (simp add: field_simps)
    then have "sin ((x - y) / 2) = - sin ((y - x) / 2)" by (simp only: sin_minus)
    then show ?thesis by (simp only: power2_minus)
  qed
  have "hav_a a b c d = hav_a c d a b"
    by (simp add: hav_a_def flip [of a c] flip [of b d] mult.commute)
  then show ?thesis by (simp add: v haversine_distance_Some)
qed

subsection \<open>Columns of a frame\<close>

lemma length_getcol: "length (getcol df c) = length (rows df)"
  by (simp add: getcol_def)

lemma length_shift1: "length (shift1 s) = length s"
  by (cases s) (simp_all add: shift1_def)

lemma length_diff1: "length (diff1 s) = length s"
  by (simp add: diff1_def length_shift1)

lemma length_haversine_columns:
  "length (haversine_columns a b c d) = min (length a) (min (length b) (min (length c) (length d)))"
  by (simp add: haversine_columns_def)

lemma length_rows_set_col:
  "length (rows (set_col df c s)) = min (length (rows df)) (length s)"
  by (simp add: set_col_def)

lemma getcol_set_col:
  assumes "length s = length (rows df)"
  shows "getcol (set_col df c s) c' = (if c' = c then s else getcol df c')"
proof -
  have "map (\<lambda>(r, v). if c' = c then v else r c') (zip (rows df) s)
      = (if c' = c then map snd (zip (rows df) s) else map (\<lambda>r. r c') (map fst (zip (rows df) s)))"
    by (simp add: split_def comp_def)
  then show ?thesis
    using assms by (simp add: getcol_def set_col_def split_def comp_def map_snd_zip map_fst_zip)
qed

lemma getcol_set_col_same:
  "length s = length (rows df) \<Longrightarrow> getcol (set_col df c s) c = s"
  by (simp add: getcol_set_col)

lemma getcol_set_col_other:
  "c' \<noteq> c \<Longrightarrow> length s = length (rows df) \<Longrightarrow> getcol (set_col df c s) c' = getcol df c'"
  by (simp add: getcol_set_col)

lemmas frame_simps =
  length_getcol length_shift1 length_diff1 length_haversine_columns length_rows_set_col
  getcol_set_col_same getcol_set_col_other

lemma length_rows_step1: "length (rows (step1 df lon_col lat_col z_col)) = length (rows df)"
  by (simp add: step1_def Let_def frame_simps)

lemma step1_d_horizontal_m:
  assumes "lon_col \<notin> set step1_columns" "lat_col \<notin> set step1_columns"
  shows "getcol (step1 df lon_col lat_col z_col) ''d_horizontal_m'' =
           haversine_columns (map np_radians (shift1 (getcol df lat_col)))
             (map np_radians (shift1 (getcol df lon_col)))
             (map np_radians (getcol df lat_col)) (map np_radians (getcol df lon_col))"
  using assms by (simp add: step1_def Let_def frame_simps step1_columns_def)

lemma step1_dZ_m:
  assumes "z_col \<notin> set step1_columns"
  shows "getcol (step1 df lon_col lat_col z_col) ''dZ_m'' = diff1 (getcol df z_col)"
  using assms by (simp add: step1_def Let_def frame_simps step1_columns_def)

lemma step_pairs_zip:
  "step_pairs df = zip (getcol df ''d_horizontal_m'') (getcol df ''dZ_m'')"
  by (simp add: step_pairs_def getcol_def zip_map_map zip_same_conv_map)

subsection \<open>The shifted columns are the adjacent pairs\<close>

lemma shift1_map: "shift1 (map g (r # rs)) = None # map g (butlast (r # rs))"
  by (simp add: shift1_def map_butlast)

lemma zip4_map:
  "zip (map f1 ps) (zip (map f2 ps) (zip (map g1 qs) (map g2 qs)))
     = map (\<lambda>(p, q). (f1 p, f2 p, g1 q, g2 q)) (zip ps qs)"
  by (induction ps qs rule: list_induct2') simp_all

lemma zip_swap_map:
  "zip (map f qs) (map f ps) = map (\<lambda>(p, q). (f q, f p)) (zip ps qs)"
  by (induction ps qs rule: list_induct2') simp_all

lemma step_records_zip:
  "step_records lon_col lat_col z_col rs =
     map (\<lambda>(p, q). (haversine_distance (np_radians (p lat_col)) (np_radians (p lon_col))
                        (np_radians (q lat_col)) (np_radians (q lon_col)) earth_radius_m_default,
                     cell_sub (q z_col) (p z_col)))
       (zip (butlast rs) (tl rs))"
  by (induction lon_col lat_col z_col rs rule: step_records.induct) simp_all

lemma d_horizontal_m_Cons:
  assumes "lon_col \<notin> set step1_columns" "lat_col \<notin> set step1_columns"
    and "rows df = r # rs"
  shows "getcol (step1 df lon_col lat_col z_col) ''d_horizontal_m'' =
     None # map (\<lambda>(p, q). haversine_distance (np_radians (p lat_col)) (np_radians (p lon_col))
                        (np_radians (q lat_col)) (np_radians (q lon_col)) earth_radius_m_default)
              (zip (butlast (r # rs)) rs)"
proof -
  have "zip (map (np_radians \<circ> (\<lambda>r. r lat_col)) (butlast (r # rs)))
         (zip (map (np_radians \<circ> (\<lambda>r. r lon_col)) (butlast (r # rs)))
           (zip (map (np_radians \<circ> (\<lambda>r. r lat_col)) rs) (map (np_radians \<circ> (\<lambda>r. r lon_col)) rs)))
       = map (\<lambda>(p, q). ((np_radians \<circ> (\<lambda>r. r lat_col)) p, (np_radians \<circ> (\<lambda>r. r lon_col)) p,
                         (np_radians \<circ> (\<lambda>r. r lat_col)) q, (np_radians \<circ> (\<lambda>r. r lon_col)) q))
           (zip (butlast (r # rs)) rs)"
    by (rule zip4_map)
  then have "haversine_columns (map np_radians (shift1 (getcol df lat_col)))
             (map np_radians (shift1 (getcol df lon_col)))
             (map np_radians (getcol df lat_col)) (map np_radians (getcol df lon_col))
      = None # map (\<lambda>(p, q). haversine_distance (np_radians (p lat_col)) (np_radians (p lon_col))
                        (np_radians (q lat_col)) (np_radians (q lon_col)) earth_radius_m_default)
              (zip (butlast (r # rs)) rs)"
    unfolding haversine_columns_def getcol_def assms(3) shift1_map
    by (simp add: haversine_distance_def np_radians_def comp_def split_def del: butlast.simps)
  with step1_d_horizontal_m [OF assms(1,2)] show ?thesis by simp
qed

lemma dZ_m_Cons:
  assumes "z_col \<notin> set step1_columns" and "rows df = r # rs"
  shows "getcol (step1 df lon_col lat_col z_col) ''dZ_m'' =
     None # map (\<lambda>(p, q). cell_sub (q z_col) (p z_col)) (zip (butlast (r # rs)) rs)"
proof -
  have "diff1 (getcol df z_col) =
     None # map (\<lambda>(p, q). cell_sub (q z_col) (p z_col)) (zip (butlast (r # rs)) rs)"
    unfolding diff1_def getcol_def assms(2) shift1_map
    by (simp add: cell_sub_def zip_swap_map [of "\<lambda>r. r z_col"] split_def comp_def
          del: butlast.simps)
  with step1_dZ_m [OF assms(1)] show ?thesis by simp
qed

lemma step_pairs_step1_Cons:
  assumes "lon_col \<notin> set step1_columns" "lat_col \<notin> set step1_columns"
    "z_col \<notin> set step1_columns"
    and "rows df = r # rs"
  shows "step_pairs (step1 df lon_col lat_col z_col) =
           (None, None) # step_records lon_col lat_col z_col (rows df)"
  unfolding step_pairs_zip d_horizontal_m_Cons [OF assms(1,2,4)] dZ_m_Cons [OF assms(3,4)]
    step_records_zip assms(4)
  by (simp add: zip_map_map zip_same_conv_map split_def comp_def del: butlast.simps)

lemma rows_step1_Nil: "rows df = [] \<Longrightarrow> rows (step1 df lon_col lat_col z_col) = []"
  using length_rows_step1 [of df lon_col lat_col z_col] by simp

lemma step_pairs_df_cleaned:
  "step_pairs (df_cleaned df) =
     filter (\<lambda>(d, dz). cell_ge d MIN_HORIZONTAL_STEP_M) (step_pairs df)"
  by (simp add: step_pairs_def df_cleaned_def filter_map comp_def)

lemma df_cleaned_step1:
  assumes "lon_col \<notin> set step1_columns" "lat_col \<notin> set step1_columns"
    "z_col \<notin> set step1_columns"
  shows "step_pairs (df_cleaned (step1 df lon_col lat_col z_col)) =
     filter (\<lambda>(d, dz). cell_ge d MIN_HORIZONTAL_STEP_M)
       (step_records lon_col lat_col z_col (rows df))"
proof (cases "rows df")
  case Nil
  then have "rows (step1 df lon_col lat_col z_col) = []" by (rule rows_step1_Nil)
  with Nil show ?thesis
    by (simp add: step_pairs_def df_cleaned_def)
next
  case (Cons r rs)
  show ?thesis
    unfolding step_pairs_df_cleaned step_pairs_step1_Cons [OF assms Cons]
    by (simp add: cell_ge_def)
qed

lemma df_cleaned_distance:
  "r \<in> set (rows (df_cleaned df)) \<Longrightarrow> \<exists>v. r ''d_horizontal_m'' = Some v \<and> 1 / 100 \<le> v"
  by (auto simp: df_cleaned_def cell_ge_def MIN_HORIZONTAL_STEP_M_def split: option.splits)

lemma step1_prev_lat_rad:
  "getcol (step1 df lon_col lat_col z_col) ''prev_lat_rad''
     = map np_radians (shift1 (getcol df lat_col))"
  by (simp add: step1_def Let_def frame_simps)

lemma step1_d_horizontal_m_columns:
  "getcol (step1 df lon_col lat_col z_col) ''d_horizontal_m''
     = haversine_columns (getcol (step1 df lon_col lat_col z_col) ''prev_lat_rad'')
         (getcol (step1 df lon_col lat_col z_col) ''prev_lon_rad'')
         (getcol (step1 df lon_col lat_col z_col) ''lat_rad'')
         (getcol (step1 df lon_col lat_col z_col) ''lon_rad'')"
  by (simp add: step1_def Let_def frame_simps)

lemma haversine_columns_single:
  "haversine_columns [None] [b] [c] [d] = [None]"
  by (simp add: haversine_columns_def haversine_distance_def)

lemma single_row_cleaned:
  assumes "rows df = [r]"
  shows "rows (df_cleaned (step1 df lon_col lat_col z_col)) = []"
proof -
  let ?df = "step1 df lon_col lat_col z_col"
  have len: "length (getcol ?df c) = 1" for c
    using assms by (simp add: length_getcol length_rows_step1)
  have "getcol ?df ''prev_lat_rad'' = [None]"
    unfolding step1_prev_lat_rad using assms by (simp add: getcol_def shift1_def np_radians_def)
  moreover obtain b where "getcol ?df ''prev_lon_rad'' = [b]"
    using len [of "''prev_lon_rad''"] by (auto simp: length_Suc_conv)
  moreover obtain c where "getcol ?df ''lat_rad'' = [c]"
    using len [of "''lat_rad''"] by (auto simp: length_Suc_conv)
  moreover obtain d where "getcol ?df ''lon_rad'' = [d]"
    using len [of "''lon_rad''"] by (auto simp: length_Suc_conv)
  ultimately have "getcol ?df ''d_horizontal_m'' = [None]"
    by (simp only: step1_d_horizontal_m_columns haversine_columns_single)
  then have "map (\<lambda>r. r ''d_horizontal_m'') (rows ?df) = [None]"
    by (simp add: getcol_def)
  then obtain q where "rows ?df = [q]" "q ''d_horizontal_m'' = None"
    by auto
  then show ?thesis
    by (simp add: df_cleaned_def cell_ge_def)
qed

subsection \<open>The record, from the pairs of the cleaned frame\<close>

lemma compile_results_pairs:
  "compile_results file_path cleaned =
     \<lparr> File_Path = file_path,
       Max_Slope_Ratio_m_m = nan_to_zero (series_max (Absolute_Slope (step_pairs cleaned))),
       Median_Absolute_Slope_m_m = nan_to_zero (series_median (Absolute_Slope (step_pairs cleaned))),
       Mean_Absolute_Slope_m_m = nan_to_zero (series_mean (Absolute_Slope (step_pairs cleaned))),
       Max_Grade_Percent = nan_to_zero (series_max (Absolute_Slope (step_pairs cleaned))) * 100,
       Median_Grade_Percent =
         nan_to_zero (series_median (Absolute_Slope (step_pairs cleaned))) * 100,
       Mean_Grade_Percent = nan_to_zero (series_mean (Absolute_Slope (step_pairs cleaned))) * 100,
       Max_Grade_Angle_Degrees =
         np_degrees (arctan (nan_to_zero (series_max (Absolute_Slope (step_pairs cleaned))))),
       Max_Vertical_Step_m = nan_to_zero (series_max (dZ_m_abs (step_pairs cleaned))),
       Median_Vertical_Step_m = nan_to_zero (series_median (dZ_m_abs (step_pairs cleaned))),
       Mean_Vertical_Step_m = nan_to_zero (series_mean (dZ_m_abs (step_pairs cleaned))) \<rparr>"
proof -
  have a: "map (\<lambda>(dz, d). cell_abs (cell_div dz d))
             (zip (getcol cleaned ''dZ_m'') (getcol cleaned ''d_horizontal_m''))
           = Absolute_Slope (step_pairs cleaned)"
    by (simp add: Absolute_Slope_def step_pairs_def getcol_def zip_map_map zip_same_conv_map
          comp_def)
  have b: "map cell_abs (getcol cleaned ''dZ_m'') = dZ_m_abs (step_pairs cleaned)"
    by (simp add: dZ_m_abs_def step_pairs_def getcol_def comp_def)
  have la: "length (Absolute_Slope (step_pairs cleaned)) = length (rows cleaned)"
    by (simp add: Absolute_Slope_def step_pairs_def)
  have lb: "length (dZ_m_abs (step_pairs cleaned)) = length (rows cleaned)"
    by (simp add: dZ_m_abs_def step_pairs_def)
  have s1: "getcol (set_col cleaned ''Absolute_Slope'' (Absolute_Slope (step_pairs cleaned)))
              ''Absolute_Slope'' = Absolute_Slope (step_pairs cleaned)"
    by (simp add: getcol_set_col_same la)
  have s2: "getcol (set_col cleaned ''Absolute_Slope'' (Absolute_Slope (step_pairs cleaned)))
              ''dZ_m'' = getcol cleaned ''dZ_m''"
    by (simp add: getcol_set_col_other la)
  have s3: "getcol (set_col (set_col cleaned ''Absolute_Slope''
                               (Absolute_Slope (step_pairs cleaned)))
                      ''dZ_m_abs'' (dZ_m_abs (step_pairs cleaned))) ''dZ_m_abs''
              = dZ_m_abs (step_pairs cleaned)"
    by (simp add: getcol_set_col_same length_rows_set_col la lb)
  show ?thesis
    unfolding compile_results_def Let_def a s1 s2 b s3 ..
qed

subsection \<open>Runs of the function\<close>

lemma returned_display_and_export:
  "returned (display_and_export w output_filename out n res) =
     (if write_interrupted w output_filename then Inl BaseException_other else Inr (Some res))"
  by (simp add: display_and_export_def write_interrupted_def Let_def
           split: option.splits py_exception.splits)

lemma display_and_export_read_excel:
  "display_and_export (w\<lparr>read_excel := rd\<rparr>) output_filename out n res
     = display_and_export w output_filename out n res"
  by (cases output_filename) (simp_all add: display_and_export_def Let_def)

lemma analyze_valid:
  assumes "read_excel w file_path = Inr df" "\<not> df_empty df"
    and "list_all (\<lambda>col. col \<in> set (columns df)) [lon_col, lat_col, z_col, id_col]"
  shows "analyze_and_export_metrics w file_path lon_col lat_col z_col id_col output_filename =
     display_and_export w output_filename [Initiating (basename file_path)]
       (int (length (rows (step1 (sort_values (argsort w) df id_col) lon_col lat_col z_col)))
        - int (length (rows (df_cleaned
                 (step1 (sort_values (argsort w) df id_col) lon_col lat_col z_col)))))
       (compile_results file_path
          (df_cleaned (step1 (sort_values (argsort w) df id_col) lon_col lat_col z_col)))"
  using assms by (simp add: analyze_and_export_metrics_def Let_def)

lemma analyze_invalid:
  assumes "read_excel w file_path = Inr df"
    and "df_empty df \<or> \<not> list_all (\<lambda>col. col \<in> set (columns df)) [lon_col, lat_col, z_col, id_col]"
  shows "returned (analyze_and_export_metrics w file_path lon_col lat_col z_col id_col output_filename)
           = Inr None"
  using assms by (auto simp add: analyze_and_export_metrics_def Let_def)

lemma analyze_raised:
  assumes "read_excel w file_path = Inl e"
  shows "returned (analyze_and_export_metrics w file_path lon_col lat_col z_col id_col output_filename)
           = (if e = BaseException_other then Inl e else Inr None)"
  using assms by (cases e) (simp_all add: analyze_and_export_metrics_def Let_def)

lemma returned_record:
  assumes "returned (analyze_and_export_metrics w file_path lon_col lat_col z_col id_col output_filename)
             = Inr (Some r)"
  obtains df where "read_excel w file_path = Inr df" "\<not> df_empty df"
    "list_all (\<lambda>col. col \<in> set (columns df)) [lon_col, lat_col, z_col, id_col]"
    "r = compile_results file_path
           (df_cleaned (step1 (sort_values (argsort w) df id_col) lon_col lat_col z_col))"
proof (cases "read_excel w file_path")
  case (Inl e)
  from analyze_raised [OF this] assms show ?thesis by (simp split: if_splits)
next
  case (Inr df)
  show ?thesis
  proof (cases "df_empty df \<or> \<not> list_all (\<lambda>col. col \<in> set (columns df)) [lon_col, lat_col, z_col, id_col]")
    case True
    from analyze_invalid [OF Inr this] assms show ?thesis by simp
  next
    case False
    then have v: "\<not> df_empty df" "list_all (\<lambda>col. col \<in> set (columns df)) [lon_col, lat_col, z_col, id_col]"
      by blast+
    from assms have "r = compile_results file_path
           (df_cleaned (step1 (sort_values (argsort w) df id_col) lon_col lat_col z_col))"
      unfolding analyze_valid [OF Inr v] returned_display_and_export by (simp split: if_splits)
    with Inr v show ?thesis by (rule that)
  qed
qed

subsection \<open>Aggregates of non-negative series\<close>

lemma set_dropna: "set (dropna s) = {v. Some v \<in> set s}"
  by (induction s rule: dropna.induct) auto

lemma fold_max_ge: "(v::real) \<le> fold max vs v"
proof (induction vs arbitrary: v)
  case Nil
  show ?case by simp
next
  case (Cons x xs)
  have "v \<le> max x v" by simp
  also have "\<dots> \<le> fold max xs (max x v)" by (rule Cons.IH)
  finally show ?case by simp
qed

lemma series_max_nonneg:
  assumes "\<And>v. Some v \<in> set s \<Longrightarrow> 0 \<le> v"
  shows "0 \<le> nan_to_zero (series_max s)"
proof (cases "dropna s")
  case Nil
  then show ?thesis by (simp add: series_max_def nan_to_zero_def)
next
  case (Cons v vs)
  then have "v \<in> set (dropna s)" by simp
  then have "0 \<le> v" using assms by (simp add: set_dropna)
  also have "v \<le> fold max vs v" by (rule fold_max_ge)
  finally show ?thesis using Cons by (simp add: series_max_def nan_to_zero_def)
qed

lemma series_mean_nonneg:
  assumes "\<And>v. Some v \<in> set s \<Longrightarrow> 0 \<le> v"
  shows "0 \<le> nan_to_zero (series_mean s)"
proof -
  have "0 \<le> sum_list (dropna s)"
    using assms by (intro sum_list_nonneg) (simp add: set_dropna)
  then show ?thesis by (simp add: series_mean_def nan_to_zero_def Let_def)
qed

lemma series_median_nonneg:
  assumes "\<And>v. Some v \<in> set s \<Longrightarrow> 0 \<le> v"
  shows "0 \<le> nan_to_zero (series_median s)"
proof -
  let ?vs = "sort (dropna s)"
  have nth: "0 \<le> ?vs ! i" if "i < length ?vs" for i
  proof -
    from that have "?vs ! i \<in> set ?vs" by (rule nth_mem)
    then show ?thesis using assms by (simp add: set_dropna)
  qed
  show ?thesis
  proof (cases "length ?vs = 0")
    case True
    then show ?thesis by (simp add: series_median_def nan_to_zero_def)
  next
    case False
    then have pos: "0 < length ?vs" by simp
    then have 1: "0 \<le> ?vs ! (length ?vs div 2)" by (intro nth) simp
    have 2: "0 \<le> ?vs ! (length ?vs div 2 - 1)" using pos by (intro nth) arith
    from 1 2 pos show ?thesis
      by (simp add: series_median_def nan_to_zero_def Let_def del: length_sort)
  qed
qed

lemma cell_abs_nonneg: "Some v = cell_abs c \<Longrightarrow> 0 \<le> v"
  by (cases c) (auto simp: cell_abs_def)

lemma Absolute_Slope_nonneg: "Some v \<in> set (Absolute_Slope cleaned) \<Longrightarrow> 0 \<le> v"
  by (auto simp: Absolute_Slope_def dest: cell_abs_nonneg)

lemma dZ_m_abs_nonneg: "Some v \<in> set (dZ_m_abs cleaned) \<Longrightarrow> 0 \<le> v"
  by (auto simp: dZ_m_abs_def dest: cell_abs_nonneg)

lemma compile_results_nonneg:
  "0 \<le> Max_Slope_Ratio_m_m (compile_results p cleaned)"
  "0 \<le> Median_Absolute_Slope_m_m (compile_results p cleaned)"
  "0 \<le> Mean_Absolute_Slope_m_m (compile_results p cleaned)"
  "0 \<le> Max_Grade_Percent (compile_results p cleaned)"
  "0 \<le> Median_Grade_Percent (compile_results p cleaned)"
  "0 \<le> Mean_Grade_Percent (compile_results p cleaned)"
  "0 \<le> Max_Grade_Angle_Degrees (compile_results p cleaned)"
  "0 \<le> Max_Vertical_Step_m (compile_results p cleaned)"
  "0 \<le> Median_Vertical_Step_m (compile_results p cleaned)"
  "0 \<le> Mean_Vertical_Step_m (compile_results p cleaned)"
  using series_max_nonneg [of "Absolute_Slope (step_pairs cleaned)", OF Absolute_Slope_nonneg]
    series_median_nonneg [of "Absolute_Slope (step_pairs cleaned)", OF Absolute_Slope_nonneg]
    series_mean_nonneg [of "Absolute_Slope (step_pairs cleaned)", OF Absolute_Slope_nonneg]
    series_max_nonneg [of "dZ_m_abs (step_pairs cleaned)", OF dZ_m_abs_nonneg]
    series_median_nonneg [of "dZ_m_abs (step_pairs cleaned)", OF dZ_m_abs_nonneg]
    series_mean_nonneg [of "dZ_m_abs (step_pairs cleaned)", OF dZ_m_abs_nonneg]
  by (simp_all add: compile_results_pairs np_degrees_def)

lemma compile_results_Nil:
  assumes "rows cleaned = []"
  shows "compile_results p cleaned =
     \<lparr> File_Path = p, Max_Slope_Ratio_m_m = 0, Median_Absolute_Slope_m_m = 0,
       Mean_Absolute_Slope_m_m = 0, Max_Grade_Percent = 0, Median_Grade_Percent = 0,
       Mean_Grade_Percent = 0, Max_Grade_Angle_Degrees = 0, Max_Vertical_Step_m = 0,
       Median_Vertical_Step_m = 0, Mean_Vertical_Step_m = 0 \<rparr>"
  using assms
  by (simp add: compile_results_pairs step_pairs_def Absolute_Slope_def dZ_m_abs_def
        series_max_def series_median_def series_mean_def nan_to_zero_def np_degrees_def)

subsection \<open>Sorting\<close>

lemma inj_na_last: "inj na_last"
  by (auto simp: inj_on_def na_last_def split: option.splits)

lemma argsort_insertion_ok: "argsort_ok argsort_insertion"
  by (simp add: argsort_ok_def argsort_insertion_def sorted_sort_key del: mset_upt)

lemma argsort_ties_reversed_ok: "argsort_ok argsort_ties_reversed"
  by (simp add: argsort_ok_def argsort_ties_reversed_def sorted_sort_key del: mset_upt)

lemma argsort_ok_set:
  assumes "argsort_ok f"
  shows "set (f ks) = {0..<length ks}"
proof -
  from assms have "mset (f ks) = mset [0..<length ks]" by (simp add: argsort_ok_def)
  then have "set (f ks) = set [0..<length ks]" by (rule mset_eq_setD)
  then show ?thesis by simp
qed

lemma sort_values_mset:
  assumes "argsort_ok f"
  shows "mset (rows (sort_values f df c)) = mset (rows df)"
proof -
  have len: "length (getcol df c) = length (rows df)" by (simp add: getcol_def)
  from assms have "mset (f (getcol df c)) = mset [0..<length (rows df)]"
    unfolding argsort_ok_def len [symmetric] by blast
  then have "mset (map (\<lambda>i. rows df ! i) (f (getcol df c)))
      = mset (map (\<lambda>i. rows df ! i) [0..<length (rows df)])"
    by (simp only: mset_map)
  then show ?thesis by (simp add: sort_values_def map_nth)
qed

lemma sort_values_sorted:
  assumes "argsort_ok f"
  shows "sorted (map (\<lambda>r. na_last (r c)) (rows (sort_values f df c)))"
proof -
  have "map (\<lambda>r. na_last (r c)) (rows (sort_values f df c))
      = map (\<lambda>i. na_last (getcol df c ! i)) (f (getcol df c))"
    using argsort_ok_set [OF assms, of "getcol df c"]
    by (auto simp: sort_values_def getcol_def)
  moreover from assms have "sorted (map (\<lambda>i. na_last (getcol df c ! i)) (f (getcol df c)))"
    by (simp add: argsort_ok_def)
  ultimately show ?thesis by simp
qed


lemma sort_values_unique:
  assumes ok: "argsort_ok f"
    and perm: "mset (rows df') = mset (rows df)"
    and cols: "columns df' = columns df"
    and dist: "distinct (getcol df c)"
  shows "sort_values f df' c = sort_values f df c"
proof -
  let ?xs = "rows (sort_values f df c)" and ?ys = "rows (sort_values f df' c)"
  let ?key = "\<lambda>r::row. na_last (r c)"
  have mx: "mset ?xs = mset (rows df)" and my: "mset ?ys = mset (rows df)"
    using sort_values_mset [OF ok] perm by simp_all
  have "mset (map (\<lambda>r. r c) ?xs) = mset (getcol df c)"
    unfolding getcol_def mset_map mx ..
  with dist have dx: "distinct (map (\<lambda>r. r c) ?xs)"
    using mset_eq_imp_distinct_iff by blast
  have "mset (map (\<lambda>r. r c) ?ys) = mset (getcol df c)"
    unfolding getcol_def mset_map my ..
  with dist have dy: "distinct (map (\<lambda>r. r c) ?ys)"
    using mset_eq_imp_distinct_iff by blast
  have kx: "distinct (map ?key ?xs)"
    using dx distinct_map [of na_last "map (\<lambda>r. r c) ?xs"] inj_na_last
    by (simp add: comp_def inj_on_def)
  have ky: "distinct (map ?key ?ys)"
    using dy distinct_map [of na_last "map (\<lambda>r. r c) ?ys"] inj_na_last
    by (simp add: comp_def inj_on_def)
  have sets: "set ?ys = set ?xs"
    using mx my by (metis set_mset_mset)
  have inj: "inj_on ?key (set ?ys \<union> set ?xs)"
    using kx by (simp add: sets distinct_map)
  have "?ys = ?xs"
    using inj sort_values_sorted [OF ok] kx sort_values_sorted [OF ok] ky sets
    by (intro map_sorted_distinct_set_unique [of ?key]) simp_all
  then show ?thesis
    using cols by (simp add: sort_values_def)
qed

lemma single_row_no_survivors:
  assumes "argsort_ok f" "length (rows df) = 1"
  shows "rows (df_cleaned (step1 (sort_values f df id_col) lon_col lat_col z_col)) = []"
proof -
  have "length (rows (sort_values f df id_col)) = 1"
    using sort_values_mset [OF assms(1), of df id_col] assms(2) by (metis mset_eq_length)
  then obtain p where "rows (sort_values f df id_col) = [p]"
    by (cases "rows (sort_values f df id_col)") auto
  then show ?thesis by (rule single_row_cleaned)
qed

text \<open>
  \<open>argsort_ok\<close> leaves the order of rows with equal ids open: the two algorithms above
  both meet it and differ on a table with a repeated id.
\<close>

lemma tie_order_not_determined:
  "argsort_ok argsort_insertion \<and> argsort_ok argsort_ties_reversed
   \<and> rows (sort_values argsort_insertion (survey two_points_same_id) ''ID'')
       = [point_row 1 0 0 0, point_row 1 180 0 7]
   \<and> rows (sort_values argsort_ties_reversed (survey two_points_same_id) ''ID'')
       = [point_row 1 180 0 7, point_row 1 0 0 0]"
  by (simp add: argsort_insertion_ok argsort_ties_reversed_ok sort_values_def
        argsort_insertion_def argsort_ties_reversed_def survey_def two_points_same_id_def
        getcol_def point_row_def na_last_def upt_rec)

subsection \<open>The sample inputs, evaluated\<close>

lemma default_columns_free:
  "''x'' \<notin> set step1_columns" "''y'' \<notin> set step1_columns" "''ZCOORD'' \<notin> set step1_columns"
  by (simp_all add: step1_columns_def)

lemma sorted_three:
  "rows (sort_values argsort_insertion (survey three_points) ''ID'')
     = [point_row 1 0 0 0, point_row 2 0 0 7, point_row 3 180 0 10]"
  by (simp add: sort_values_def argsort_insertion_def survey_def three_points_def getcol_def
        point_row_def na_last_def upt_rec)

lemma hav_equator_half:
  "haversine_distance (Some 0) (Some 0) (Some 0) (Some pi) earth_radius_m_default = Some (pi * 6371000)"
  by (simp add: haversine_distance_def np_sqrt_def np_arctan2_def earth_radius_m_default_def)

lemma hav_same:
  "haversine_distance (Some 0) (Some 0) (Some 0) (Some 0) earth_radius_m_default = Some 0"
  by (simp add: haversine_distance_def np_sqrt_def np_arctan2_def earth_radius_m_default_def)

lemma steps_three:
  "step_records ''x'' ''y'' ''ZCOORD'' [point_row 1 0 0 0, point_row 2 0 0 7, point_row 3 180 0 10]
     = [(Some 0, Some 7), (Some (pi * 6371000), Some 3)]"
  by (simp add: point_row_def np_radians_def hav_equator_half hav_same cell_sub_def)

lemma kept_three:
  "filter (\<lambda>(d, dz). cell_ge d (1 / 100)) [(Some 0, Some 7), (Some (pi * 6371000), Some 3)]
     = [(Some (pi * 6371000), Some 3)]"
proof -
  have "(1::real) / 100 \<le> pi * 6371000" using pi_ge_two by simp
  then show ?thesis by (simp add: cell_ge_def)
qed

lemma pairs_three:
  "step_pairs (df_cleaned (step1 (sort_values argsort_insertion (survey three_points) ''ID'')
                  ''x'' ''y'' ''ZCOORD''))
     = [(Some (pi * 6371000), Some 3)]"
  unfolding df_cleaned_step1 [OF default_columns_free] sorted_three steps_three
    MIN_HORIZONTAL_STEP_M_def
  by (rule kept_three)

lemma results_three:
  assumes "step_pairs cleaned = [(Some (pi * 6371000), Some 3)]"
  shows "compile_results p cleaned = three_points_results p"
  unfolding compile_results_pairs assms
  by (simp add: three_points_results_def Absolute_Slope_def dZ_m_abs_def series_max_def
        series_median_def series_mean_def nan_to_zero_def cell_abs_def cell_div_def)

lemma analyze_three_points:
  "returned (analyze_and_export_metrics (world (survey three_points) None) ''terrain.xlsx''
              ''x'' ''y'' ''ZCOORD'' ''ID'' None)
     = Inr (Some (three_points_results ''terrain.xlsx''))"
proof -
  have "read_excel (world (survey three_points) None) ''terrain.xlsx'' = Inr (survey three_points)"
    by (simp add: world_def)
  moreover have "\<not> df_empty (survey three_points)"
    by (simp add: df_empty_def survey_def three_points_def)
  moreover have "list_all (\<lambda>col. col \<in> set (columns (survey three_points)))
      [''x'', ''y'', ''ZCOORD'', ''ID'']"
    by (simp add: survey_def)
  moreover have "argsort (world (survey three_points) None) = argsort_insertion"
    by (simp add: world_def)
  ultimately show ?thesis
    by (simp add: analyze_valid returned_display_and_export write_interrupted_def
          results_three [OF pairs_three])
qed

lemma sorted_two:
  "rows (sort_values argsort_insertion (survey two_coincident_points) ''ID'')
     = [point_row 1 0 0 0, point_row 2 0 0 5]"
  by (simp add: sort_values_def argsort_insertion_def survey_def two_coincident_points_def
        getcol_def point_row_def na_last_def upt_rec)

lemma steps_two:
  "step_records ''x'' ''y'' ''ZCOORD'' [point_row 1 0 0 0, point_row 2 0 0 5]
     = [(Some 0, Some 5)]"
  by (simp add: point_row_def np_radians_def hav_same cell_sub_def)

lemma cleaned_two:
  "rows (df_cleaned (step1 (sort_values argsort_insertion (survey two_coincident_points) ''ID'')
      ''x'' ''y'' ''ZCOORD'')) = []"
proof -
  have "step_pairs (df_cleaned (step1
          (sort_values argsort_insertion (survey two_coincident_points) ''ID'')
          ''x'' ''y'' ''ZCOORD'')) = []"
    unfolding df_cleaned_step1 [OF default_columns_free] sorted_two steps_two
    by (simp add: cell_ge_def MIN_HORIZONTAL_STEP_M_def)
  then show ?thesis by (simp add: step_pairs_def)
qed

subsection \<open>Claims about analyze\_and\_export\_metrics\<close>



text \<open>
  C2, as stated, fails on a table with no rows: fewer than two rows are loaded and no
  step survives, yet line 50 finds the frame empty and the function returns the failure
  signal.
\<close>

theorem empty_table_is_failure:
  "length (rows (survey [])) < 2
   \<and> rows (df_cleaned (step1 (sort_values argsort_insertion (survey []) ''ID'')
        ''x'' ''y'' ''ZCOORD'')) = []
   \<and> returned (analyze_and_export_metrics (world (survey []) None) ''terrain.xlsx''
        ''x'' ''y'' ''ZCOORD'' ''ID'' None) = Inr None"
proof -
  have "rows (sort_values argsort_insertion (survey []) ''ID'') = []"
    by (simp add: sort_values_def argsort_insertion_def survey_def getcol_def)
  then have "rows (step1 (sort_values argsort_insertion (survey []) ''ID'')
        ''x'' ''y'' ''ZCOORD'') = []"
    by (rule rows_step1_Nil)
  then have "rows (df_cleaned (step1 (sort_values argsort_insertion (survey []) ''ID'')
        ''x'' ''y'' ''ZCOORD'')) = []"
    by (simp add: df_cleaned_def)
  moreover have "returned (analyze_and_export_metrics (world (survey []) None) ''terrain.xlsx''
        ''x'' ''y'' ''ZCOORD'' ''ID'' None) = Inr None"
    by (rule analyze_invalid [of _ _ "survey []"]) (simp_all add: world_def survey_def df_empty_def)
  ultimately show ?thesis by (simp add: survey_def)
qed

text \<open>
  C2, amended. If the table has at least one row and the four columns, and no step
  survives the filter (every step is below the threshold, or there is one row only),
  the function returns a record, not the failure signal, and every aggregate field of it
  is 0; no exception leaves the function short of an interrupt of the report write.
\<close>

theorem empty_survivors_zero_record:
  assumes "read_excel w file_path = Inr df"
    and "rows df \<noteq> []"
    and "list_all (\<lambda>col. col \<in> set (columns df)) [lon_col, lat_col, z_col, id_col]"
    and "rows (df_cleaned (step1 (sort_values (argsort w) df id_col) lon_col lat_col z_col)) = []
         \<or> length (rows df) = 1 \<and> argsort_ok (argsort w)"
    and "\<not> write_interrupted w output_filename"
  shows "returned (analyze_and_export_metrics w file_path lon_col lat_col z_col id_col
                     output_filename)
           = Inr (Some \<lparr> File_Path = file_path, Max_Slope_Ratio_m_m = 0,
                         Median_Absolute_Slope_m_m = 0, Mean_Absolute_Slope_m_m = 0,
                         Max_Grade_Percent = 0, Median_Grade_Percent = 0,
                         Mean_Grade_Percent = 0, Max_Grade_Angle_Degrees = 0,
                         Max_Vertical_Step_m = 0, Median_Vertical_Step_m = 0,
                         Mean_Vertical_Step_m = 0 \<rparr>)"
proof -
  from assms(3) have "columns df \<noteq> []" by auto
  with assms(2) have valid: "\<not> df_empty df" by (simp add: df_empty_def)
  from assms(4)
  have none: "rows (df_cleaned (step1 (sort_values (argsort w) df id_col)
                 lon_col lat_col z_col)) = []"
    using single_row_no_survivors [of "argsort w" df id_col lon_col lat_col z_col] by blast
  from analyze_valid [OF assms(1) valid assms(3)] assms(5) show ?thesis
    by (simp add: returned_display_and_export compile_results_Nil [OF none])
qed

text \<open>Two points at the same place: the one step has distance 0 and every aggregate is 0.\<close>

theorem empty_survivors_zero_record_witness:
  "rows (survey two_coincident_points) \<noteq> []
   \<and> step_records ''x'' ''y'' ''ZCOORD''
        (rows (sort_values argsort_insertion (survey two_coincident_points) ''ID''))
      = [(Some 0, Some 5)]
   \<and> rows (df_cleaned (step1 (sort_values argsort_insertion (survey two_coincident_points) ''ID'')
        ''x'' ''y'' ''ZCOORD'')) = []
   \<and> returned (analyze_and_export_metrics (world (survey two_coincident_points) None)
        ''terrain.xlsx'' ''x'' ''y'' ''ZCOORD'' ''ID'' None)
      = Inr (Some \<lparr> File_Path = ''terrain.xlsx'', Max_Slope_Ratio_m_m = 0,
                    Median_Absolute_Slope_m_m = 0, Mean_Absolute_Slope_m_m = 0,
                    Max_Grade_Percent = 0, Median_Grade_Percent = 0,
                    Mean_Grade_Percent = 0, Max_Grade_Angle_Degrees = 0,
                    Max_Vertical_Step_m = 0, Median_Vertical_Step_m = 0,
                    Mean_Vertical_Step_m = 0 \<rparr>)
   \<and> length (rows (survey one_point)) = 1
   \<and> returned (analyze_and_export_metrics (world (survey one_point) None)
        ''terrain.xlsx'' ''x'' ''y'' ''ZCOORD'' ''ID'' None)
      = Inr (Some \<lparr> File_Path = ''terrain.xlsx'', Max_Slope_Ratio_m_m = 0,
                    Median_Absolute_Slope_m_m = 0, Mean_Absolute_Slope_m_m = 0,
                    Max_Grade_Percent = 0, Median_Grade_Percent = 0,
                    Mean_Grade_Percent = 0, Max_Grade_Angle_Degrees = 0,
                    Max_Vertical_Step_m = 0, Median_Vertical_Step_m = 0,
                    Mean_Vertical_Step_m = 0 \<rparr>)"
proof -
  let ?w = "world (survey two_coincident_points) None"
  have a: "read_excel ?w ''terrain.xlsx'' = Inr (survey two_coincident_points)"
    by (simp add: world_def)
  have b: "rows (survey two_coincident_points) \<noteq> []"
    by (simp add: survey_def two_coincident_points_def)
  have c: "list_all (\<lambda>col. col \<in> set (columns (survey two_coincident_points)))
             [''x'', ''y'', ''ZCOORD'', ''ID'']"
    by (simp add: survey_def)
  have d: "rows (df_cleaned (step1 (sort_values (argsort ?w) (survey two_coincident_points) ''ID'')
        ''x'' ''y'' ''ZCOORD'')) = []
      \<or> length (rows (survey two_coincident_points)) = 1 \<and> argsort_ok (argsort ?w)"
    using cleaned_two by (simp add: world_def)
  have e: "\<not> write_interrupted ?w None"
    by (simp add: write_interrupted_def)
  have st: "step_records ''x'' ''y'' ''ZCOORD''
        (rows (sort_values argsort_insertion (survey two_coincident_points) ''ID''))
      = [(Some 0, Some 5)]"
    unfolding sorted_two by (rule steps_two)
  let ?v = "world (survey one_point) None"
  have a1: "read_excel ?v ''terrain.xlsx'' = Inr (survey one_point)"
    by (simp add: world_def)
  have b1: "rows (survey one_point) \<noteq> []"
    by (simp add: survey_def one_point_def)
  have c1: "list_all (\<lambda>col. col \<in> set (columns (survey one_point)))
             [''x'', ''y'', ''ZCOORD'', ''ID'']"
    by (simp add: survey_def)
  have l1: "length (rows (survey one_point)) = 1"
    by (simp add: survey_def one_point_def)
  have d1: "rows (df_cleaned (step1 (sort_values (argsort ?v) (survey one_point) ''ID'')
        ''x'' ''y'' ''ZCOORD'')) = []
      \<or> length (rows (survey one_point)) = 1 \<and> argsort_ok (argsort ?v)"
    using l1 by (simp add: world_def argsort_insertion_ok)
  have e1: "\<not> write_interrupted ?v None"
    by (simp add: write_interrupted_def)
  from empty_survivors_zero_record [OF a b c d e]
    empty_survivors_zero_record [OF a1 b1 c1 d1 e1] b st cleaned_two l1
  show ?thesis by blast
qed

text \<open>
  C4. If \<^verbatim>\<open>pd.read_excel\<close> raises \<open>FileNotFoundError\<close> or any other \<open>Exception\<close>, or one
  of the four required columns is absent, or the table is empty, the function returns
  the failure signal \<open>None\<close>; it returns, so no exception leaves it.
\<close>

theorem load_failures_signal:
  assumes "read_excel w file_path = Inl FileNotFoundError
         \<or> read_excel w file_path = Inl Exception_other
         \<or> (\<exists>df. read_excel w file_path = Inr df
               \<and> (df_empty df \<or> (\<exists>col \<in> set [lon_col, lat_col, z_col, id_col].
                                      col \<notin> set (columns df))))"
  shows "returned (analyze_and_export_metrics w file_path lon_col lat_col z_col id_col
                     output_filename) = Inr None"
proof -
  consider (missing) "read_excel w file_path = Inl FileNotFoundError"
    | (unreadable) "read_excel w file_path = Inl Exception_other"
    | (invalid) df where "read_excel w file_path = Inr df"
        "df_empty df \<or> (\<exists>col \<in> set [lon_col, lat_col, z_col, id_col]. col \<notin> set (columns df))"
    using assms by blast
  then show ?thesis
  proof cases
    case missing
    then show ?thesis by (simp add: analyze_raised)
  next
    case unreadable
    then show ?thesis by (simp add: analyze_raised)
  next
    case invalid
    from invalid(2)
    have "df_empty df \<or> \<not> list_all (\<lambda>col. col \<in> set (columns df)) [lon_col, lat_col, z_col, id_col]"
      by (auto simp: list_all_iff)
    with invalid(1) show ?thesis by (rule analyze_invalid)
  qed
qed

text \<open>A missing file, an unreadable file, a table without the elevation column, an empty table.\<close>

theorem load_failures_signal_witness:
  "returned (analyze_and_export_metrics (world_raising FileNotFoundError) ''terrain.xlsx''
      ''x'' ''y'' ''ZCOORD'' ''ID'' None) = Inr None
   \<and> returned (analyze_and_export_metrics (world_raising Exception_other) ''terrain.xlsx''
      ''x'' ''y'' ''ZCOORD'' ''ID'' None) = Inr None
   \<and> ''ZCOORD'' \<notin> set (columns survey_without_elevation)
   \<and> returned (analyze_and_export_metrics (world survey_without_elevation None) ''terrain.xlsx''
      ''x'' ''y'' ''ZCOORD'' ''ID'' None) = Inr None
   \<and> df_empty (survey [])
   \<and> returned (analyze_and_export_metrics (world (survey []) None) ''terrain.xlsx''
      ''x'' ''y'' ''ZCOORD'' ''ID'' None) = Inr None"
proof -
  have 1: "read_excel (world_raising FileNotFoundError) ''terrain.xlsx'' = Inl FileNotFoundError"
    by (simp add: world_raising_def)
  have 2: "read_excel (world_raising Exception_other) ''terrain.xlsx'' = Inl Exception_other"
    by (simp add: world_raising_def)
  have 3: "read_excel (world survey_without_elevation None) ''terrain.xlsx''
             = Inr survey_without_elevation"
    by (simp add: world_def)
  have m3: "''ZCOORD'' \<notin> set (columns survey_without_elevation)"
    by (simp add: survey_without_elevation_def)
  have 4: "read_excel (world (survey []) None) ''terrain.xlsx'' = Inr (survey [])"
    by (simp add: world_def)
  have e4: "df_empty (survey [])"
    by (simp add: df_empty_def survey_def)
  show ?thesis
    using load_failures_signal [of "world_raising FileNotFoundError" "''terrain.xlsx''"
        "''x''" "''y''" "''ZCOORD''" "''ID''" None]
      load_failures_signal [of "world_raising Exception_other" "''terrain.xlsx''"
        "''x''" "''y''" "''ZCOORD''" "''ID''" None]
      load_failures_signal [of "world survey_without_elevation None" "''terrain.xlsx''"
        "''x''" "''y''" "''ZCOORD''" "''ID''" None]
      load_failures_signal [of "world (survey []) None" "''terrain.xlsx''"
        "''x''" "''y''" "''ZCOORD''" "''ID''" None]
      1 2 3 m3 4 e4
    by simp
qed

text \<open>
  C5. If the id values of a table are pairwise distinct (two missing ids count as
  equal), the same rows in any other order give the same outcome, and so the same
  metrics record: whatever sorting algorithm the library uses, sorting by distinct ids
  has one result.
\<close>

theorem row_order_invariance:
  assumes "argsort_ok (argsort w)"
    and "mset (rows df') = mset (rows df)"
    and "columns df' = columns df"
    and "distinct (getcol df id_col)"
  shows "analyze_and_export_metrics (w\<lparr>read_excel := \<lambda>_. Inr df'\<rparr>) file_path
            lon_col lat_col z_col id_col output_filename
       = analyze_and_export_metrics (w\<lparr>read_excel := \<lambda>_. Inr df\<rparr>) file_path
            lon_col lat_col z_col id_col output_filename"
proof -
  have s: "sort_values (argsort w) df' id_col = sort_values (argsort w) df id_col"
    using assms by (rule sort_values_unique)
  have "rows df' = [] \<longleftrightarrow> rows df = []"
    using assms(2) by (metis mset_zero_iff)
  then have e: "df_empty df' = df_empty df"
    using assms(3) by (simp add: df_empty_def)
  show ?thesis
    by (simp add: analyze_and_export_metrics_def Let_def s e assms(3)
          display_and_export_read_excel)
qed

text \<open>The three sample points, out of order and in order.\<close>

theorem row_order_invariance_witness:
  "argsort_ok argsort_insertion
   \<and> mset three_points = mset three_points_in_order
   \<and> distinct (getcol (survey three_points_in_order) ''ID'')
   \<and> three_points \<noteq> three_points_in_order
   \<and> returned (analyze_and_export_metrics (world (survey three_points) None) ''terrain.xlsx''
        ''x'' ''y'' ''ZCOORD'' ''ID'' None)
     = returned (analyze_and_export_metrics (world (survey three_points_in_order) None)
        ''terrain.xlsx'' ''x'' ''y'' ''ZCOORD'' ''ID'' None)"
proof -
  let ?w = "world (survey []) None"
  have a: "argsort_ok (argsort ?w)" by (simp add: world_def argsort_insertion_ok)
  have b: "mset (rows (survey three_points)) = mset (rows (survey three_points_in_order))"
    by (simp add: survey_def three_points_def three_points_in_order_def)
  have c: "columns (survey three_points) = columns (survey three_points_in_order)"
    by (simp add: survey_def)
  have d: "distinct (getcol (survey three_points_in_order) ''ID'')"
    by (simp add: getcol_def survey_def three_points_in_order_def point_row_def)
  have w1: "?w\<lparr>read_excel := \<lambda>_. Inr (survey three_points)\<rparr> = world (survey three_points) None"
    by (simp add: world_def)
  have w2: "?w\<lparr>read_excel := \<lambda>_. Inr (survey three_points_in_order)\<rparr>
              = world (survey three_points_in_order) None"
    by (simp add: world_def)
  have "point_row 3 180 0 10 ''ID'' \<noteq> point_row 1 0 0 0 ''ID''"
    by (simp add: point_row_def)
  then have "point_row 3 180 0 10 \<noteq> point_row 1 0 0 0" by metis
  then have n: "three_points \<noteq> three_points_in_order"
    by (simp add: three_points_def three_points_in_order_def)
  from row_order_invariance [OF a b c d, of "''terrain.xlsx''" "''x''" "''y''" "''ZCOORD''" None]
  have "analyze_and_export_metrics (world (survey three_points) None) ''terrain.xlsx''
        ''x'' ''y'' ''ZCOORD'' ''ID'' None
     = analyze_and_export_metrics (world (survey three_points_in_order) None)
        ''terrain.xlsx'' ''x'' ''y'' ''ZCOORD'' ''ID'' None"
    unfolding w1 w2 .
  with argsort_insertion_ok b d n show ?thesis
    by (simp add: survey_def)
qed

text \<open>
  C8. The record the function returns is the same whether \<^verbatim>\<open>output_filename\<close> is absent,
  the report is written, or writing it raises an \<open>Exception\<close>; in the last case the
  warning is printed, nothing is raised, and the result stays a record.
\<close>

theorem report_write_failure_nonterminal:
  assumes "e \<noteq> BaseException_other"
  shows "returned (analyze_and_export_metrics (w\<lparr>write_report := \<lambda>_. None\<rparr>) file_path
                     lon_col lat_col z_col id_col (Some f))
           = returned (analyze_and_export_metrics w file_path lon_col lat_col z_col id_col None)
       \<and> returned (analyze_and_export_metrics (w\<lparr>write_report := \<lambda>_. Some e\<rparr>) file_path
                     lon_col lat_col z_col id_col (Some f))
           = returned (analyze_and_export_metrics w file_path lon_col lat_col z_col id_col None)
       \<and> (f \<noteq> [] \<and> (\<exists>r. returned (analyze_and_export_metrics w file_path
                                      lon_col lat_col z_col id_col None) = Inr (Some r))
            \<longrightarrow> Warning_not_written f
                  \<in> set (printed (analyze_and_export_metrics (w\<lparr>write_report := \<lambda>_. Some e\<rparr>)
                                    file_path lon_col lat_col z_col id_col (Some f))))"
  using assms
  by (cases e)
     (auto simp: analyze_and_export_metrics_def display_and_export_def Let_def
           split: sum.splits py_exception.splits)

text \<open>The three sample points with a report file that cannot be written.\<close>

theorem report_write_failure_nonterminal_witness:
  "Exception_other \<noteq> BaseException_other
   \<and> returned (analyze_and_export_metrics (world (survey three_points) (Some Exception_other))
        ''terrain.xlsx'' ''x'' ''y'' ''ZCOORD'' ''ID'' (Some ''report.txt''))
     = Inr (Some (three_points_results ''terrain.xlsx''))
   \<and> returned (analyze_and_export_metrics (world (survey three_points) None)
        ''terrain.xlsx'' ''x'' ''y'' ''ZCOORD'' ''ID'' (Some ''report.txt''))
     = Inr (Some (three_points_results ''terrain.xlsx''))
   \<and> Warning_not_written ''report.txt''
       \<in> set (printed (analyze_and_export_metrics (world (survey three_points) (Some Exception_other))
                 ''terrain.xlsx'' ''x'' ''y'' ''ZCOORD'' ''ID'' (Some ''report.txt'')))"
proof -
  let ?w = "world (survey three_points) None"
  have w1: "?w\<lparr>write_report := \<lambda>_. None\<rparr> = world (survey three_points) None"
    by (simp add: world_def)
  have w2: "?w\<lparr>write_report := \<lambda>_. Some Exception_other\<rparr>
              = world (survey three_points) (Some Exception_other)"
    by (simp add: world_def)
  have n: "Exception_other \<noteq> BaseException_other" by simp
  from report_write_failure_nonterminal [OF n, of ?w "''terrain.xlsx''" "''x''" "''y''"
      "''ZCOORD''" "''ID''" "''report.txt''"] n show ?thesis
    unfolding w1 w2 analyze_three_points by simp
qed

text \<open>
  C10. Whenever the function returns a record, its ten numeric fields (all but
  \<^verbatim>\<open>File_Path\<close>) are non-negative.
\<close>

theorem results_nonnegative:
  assumes "returned (analyze_and_export_metrics w file_path lon_col lat_col z_col id_col
                       output_filename) = Inr (Some r)"
  shows "0 \<le> Max_Slope_Ratio_m_m r \<and> 0 \<le> Median_Absolute_Slope_m_m r
       \<and> 0 \<le> Mean_Absolute_Slope_m_m r \<and> 0 \<le> Max_Grade_Percent r
       \<and> 0 \<le> Median_Grade_Percent r \<and> 0 \<le> Mean_Grade_Percent r
       \<and> 0 \<le> Max_Grade_Angle_Degrees r \<and> 0 \<le> Max_Vertical_Step_m r
       \<and> 0 \<le> Median_Vertical_Step_m r \<and> 0 \<le> Mean_Vertical_Step_m r"
proof -
  from assms obtain df where "r = compile_results file_path
      (df_cleaned (step1 (sort_values (argsort w) df id_col) lon_col lat_col z_col))"
    by (rule returned_record)
  then show ?thesis by (simp only: compile_results_nonneg simp_thms)
qed

text \<open>The record of the three sample points.\<close>

theorem results_nonnegative_witness:
  "returned (analyze_and_export_metrics (world (survey three_points) None) ''terrain.xlsx''
      ''x'' ''y'' ''ZCOORD'' ''ID'' None)
     = Inr (Some (three_points_results ''terrain.xlsx''))
   \<and> Max_Slope_Ratio_m_m (three_points_results ''terrain.xlsx'') = 3 / (pi * 6371000)
   \<and> 0 \<le> Max_Slope_Ratio_m_m (three_points_results ''terrain.xlsx'')
   \<and> 0 \<le> Max_Grade_Angle_Degrees (three_points_results ''terrain.xlsx'')
   \<and> 0 \<le> Mean_Vertical_Step_m (three_points_results ''terrain.xlsx'')"
proof -
  have "Max_Slope_Ratio_m_m (three_points_results ''terrain.xlsx'') = 3 / (pi * 6371000)"
    by (simp add: three_points_results_def)
  with results_nonnegative [OF analyze_three_points] analyze_three_points show ?thesis
    by blast
qed

end
